theory Spec2Isabelle
  imports Main
begin

section \<open>The day grid of the wired date picker\<close>

text \<open>
  A shallow embedding of \<^verbatim>\<open>packages/wired-datepicker/src/wired-datepicker-grid.ts\<close>,
  the class \<^verbatim>\<open>WiredDatePickerGrid\<close>.

  Conventions of the embedding.
  \<^item> The properties are declared \<^verbatim>\<open>type: Number\<close> and are only ever used as cell
    indices and counts, so they are integers here (\<^typ>\<open>int\<close>); \<^verbatim>\<open>Math.max\<close> and
    \<^verbatim>\<open>Math.min\<close> are \<^const>\<open>max\<close> and \<^const>\<open>min\<close>.
  \<^item> The object is a record; a setter or handler takes the record and returns the
    updated one.
  \<^item> The calls the component makes on its surroundings (\<^verbatim>\<open>preventDefault\<close>,
    \<^verbatim>\<open>blur\<close>, \<^verbatim>\<open>focus\<close>, \<^verbatim>\<open>fire\<close>) are appended to a log of effects, in program order.
  \<^item> The node list \<^verbatim>\<open>cells\<close> is \<^verbatim>\<open>undefined\<close> (no shadow root) or a list of elements of
    which only the length matters: \<^typ>\<open>nat option\<close>. Reading \<^verbatim>\<open>cells[i]\<close> outside
    \<^verbatim>\<open>0 .. length - 1\<close> yields \<^verbatim>\<open>undefined\<close>, and calling a method on it throws a
    \<^verbatim>\<open>TypeError\<close>; the handlers therefore return an error or unit, next to the state
    and the log as they are when the handler is left.
  \<^item> A JavaScript array is a list of optional elements (\<^const>\<open>None\<close> is a hole);
    the limit of \<open>2\<^sup>3\<^sup>2 - 1\<close> elements is not modelled.
\<close>

subsection \<open>State\<close>

text \<open>
  The fields \<^verbatim>\<open>_selectedDayIndex\<close>, \<^verbatim>\<open>_minEnabledIndex\<close>, \<^verbatim>\<open>_maxEnabledIndex\<close> and
  \<^verbatim>\<open>_focusIndex\<close> carry the names of their getters (an Isabelle name cannot start with
  an underscore); the getters return the stored field unchanged.
\<close>

record grid =
  selectedDayIndex :: int
  minEnabledIndex :: int
  maxEnabledIndex :: int
  dayCount :: int
  gridOffset :: int
  focusIndex :: int

text \<open>The field initialisers of the class.\<close>

definition initial :: grid where
  "initial = \<lparr> selectedDayIndex = - 1, minEnabledIndex = 0, maxEnabledIndex = 32,
               dayCount = 0, gridOffset = 0, focusIndex = 0 \<rparr>"

datatype error = TypeError | RangeError

datatype effect =
    PreventDefault
  | Blur int
  | Focus int
  | Fire string int

subsection \<open>Property setters\<close>

text \<open>
  \<^verbatim>\<open>set selectedDayIndex(value)\<close>. The closing \<^verbatim>\<open>requestUpdate\<close> schedules a render and
  touches no field; it is left out.
\<close>

definition set_selectedDayIndex :: "int \<Rightarrow> grid \<Rightarrow> grid" where
  "set_selectedDayIndex v g =
     (let g1 = g\<lparr>selectedDayIndex := v\<rparr>;
          g2 = g1\<lparr>focusIndex := v\<rparr>
      in if focusIndex g2 < minEnabledIndex g2 \<or> focusIndex g2 > maxEnabledIndex g2
         then g2\<lparr>focusIndex := minEnabledIndex g2\<rparr>
         else g2)"

text \<open>\<^verbatim>\<open>set minEnabledIndex(value)\<close>.\<close>

definition set_minEnabledIndex :: "int \<Rightarrow> grid \<Rightarrow> grid" where
  "set_minEnabledIndex v g =
     (let g1 = g\<lparr>minEnabledIndex := v\<rparr>
      in g1\<lparr>focusIndex := max (minEnabledIndex g1) (focusIndex g1)\<rparr>)"

text \<open>\<^verbatim>\<open>set maxEnabledIndex(value)\<close>.\<close>

definition set_maxEnabledIndex :: "int \<Rightarrow> grid \<Rightarrow> grid" where
  "set_maxEnabledIndex v g =
     (let g1 = g\<lparr>maxEnabledIndex := v\<rparr>
      in if focusIndex g1 \<ge> maxEnabledIndex g1
         then g1\<lparr>focusIndex := minEnabledIndex g1\<rparr>
         else g1)"

text \<open>The local function \<^verbatim>\<open>isCellEnabled\<close> of \<^verbatim>\<open>render\<close>.\<close>

definition isCellEnabled :: "grid \<Rightarrow> int \<Rightarrow> bool" where
  "isCellEnabled g i \<longleftrightarrow> i < maxEnabledIndex g \<and> i \<ge> minEnabledIndex g"

subsection \<open>Jumps\<close>

definition jumpForward :: "int \<Rightarrow> int \<Rightarrow> grid \<Rightarrow> int" where
  "jumpForward step gridLength g =
     (if focusIndex g + step < min gridLength (maxEnabledIndex g)
      then focusIndex g + step
      else focusIndex g)"

definition jumpBackward :: "int \<Rightarrow> grid \<Rightarrow> int" where
  "jumpBackward step g =
     (if focusIndex g - step \<ge> max 0 (minEnabledIndex g)
      then focusIndex g - step
      else focusIndex g)"

subsection \<open>Selection event\<close>

text \<open>
  Modelled from the spec: \<^verbatim>\<open>fire\<close> is imported from \<^verbatim>\<open>wired-lib\<close>, which is not among
  the sources. It dispatches the named event with the given detail on the element;
  here the event is recorded in the log as \<^term>\<open>Fire name day\<close>. What the listeners
  of the event do is outside the component.
\<close>

definition onCellSelected :: "int \<Rightarrow> effect list" where
  "onCellSelected cellIndex = [Fire ''cell-selected'' (cellIndex + 1)]"

subsection \<open>Rendering\<close>

text \<open>
  The only callback ever handed to a cell is \<^verbatim>\<open>this.onCellSelected.bind(this)\<close>;
  \<^verbatim>\<open>undefined\<close> is \<^const>\<open>None\<close>.
\<close>

datatype callback = OnCellSelected

record cell =
  index :: int
  selected :: bool
  disabled :: bool
  handleSelect :: "callback option"

text \<open>The template \<^verbatim>\<open>Cell\<close>; the caller passes the defaulted arguments explicitly.\<close>

definition Cell :: "int \<Rightarrow> bool \<Rightarrow> bool \<Rightarrow> callback option \<Rightarrow> cell" where
  "Cell i sel dis h = \<lparr> index = i, selected = sel, disabled = dis, handleSelect = h \<rparr>"

text \<open>The click listener of the template: \<^verbatim>\<open>() => handleSelect && handleSelect(index)\<close>.\<close>

definition click :: "cell \<Rightarrow> effect list" where
  "click c = (case handleSelect c of
                None \<Rightarrow> []
              | Some OnCellSelected \<Rightarrow> onCellSelected (index c))"

text \<open>
  The assignment \<^verbatim>\<open>xs[i] = v\<close> on an array, for \<open>i \<ge> 0\<close>: beyond the end the array
  is extended and the positions in between are holes.
\<close>

definition array_set :: "'a option list \<Rightarrow> nat \<Rightarrow> 'a \<Rightarrow> 'a option list" where
  "array_set xs i v =
     (if i < length xs then xs[i := Some v]
      else xs @ replicate (i - length xs) None @ [Some v])"

text \<open>
  \<^verbatim>\<open>render\<close>, as far as the list \<^verbatim>\<open>cells\<close> goes. \<^verbatim>\<open>Array(n)\<close> throws a
  \<^verbatim>\<open>RangeError\<close> for a negative \<open>n\<close>.
\<close>

definition render :: "grid \<Rightarrow> error + cell option list" where
  "render g =
     (if dayCount g < 0 then Inl RangeError
      else
        let cells = map (\<lambda>i.
                      let enabled = isCellEnabled g (int i);
                          onSelectCell = (if enabled then Some OnCellSelected else None)
                      in Some (Cell (int i) False (\<not> enabled) onSelectCell))
                    [0 ..< nat (dayCount g)]
        in if selectedDayIndex g \<ge> 0
           then let enabled = isCellEnabled g (selectedDayIndex g)
                in Inr (array_set cells (nat (selectedDayIndex g))
                          (Cell (selectedDayIndex g) True (\<not> enabled) None))
           else Inr cells)"

subsection \<open>Keyboard navigation\<close>

definition VK_ENTER :: int where "VK_ENTER = 13"
definition VK_SPACE :: int where "VK_SPACE = 32"
definition VK_END :: int where "VK_END = 35"
definition VK_HOME :: int where "VK_HOME = 36"
definition VK_LEFT :: int where "VK_LEFT = 37"
definition VK_RIGHT :: int where "VK_RIGHT = 39"
definition VK_UP :: int where "VK_UP = 38"
definition VK_DOWN :: int where "VK_DOWN = 40"

text \<open>\<^verbatim>\<open>cells[i]\<close> is an element, not \<^verbatim>\<open>undefined\<close>, for a node list of \<open>n\<close> elements.\<close>

definition cell_defined :: "nat \<Rightarrow> int \<Rightarrow> bool" where
  "cell_defined n i \<longleftrightarrow> 0 \<le> i \<and> i < int n"

text \<open>
  The \<^verbatim>\<open>switch\<close> of \<^verbatim>\<open>handleKeyboardNavigation\<close>: the new focus index and the effects
  of the selected branch.
\<close>

definition key_switch :: "nat \<Rightarrow> int \<Rightarrow> grid \<Rightarrow> int \<times> effect list" where
  "key_switch n keyCode g =
     (if keyCode = VK_LEFT then (jumpBackward 1 g, [PreventDefault])
      else if keyCode = VK_RIGHT then (jumpForward 1 (int n) g, [PreventDefault])
      else if keyCode = VK_DOWN then (jumpForward 7 (int n) g, [PreventDefault])
      else if keyCode = VK_UP then (jumpBackward 7 g, [PreventDefault])
      else if keyCode = VK_END
        then (min (int n) (maxEnabledIndex g) - 1, [PreventDefault])
      else if keyCode = VK_HOME
        then (max 0 (minEnabledIndex g), [PreventDefault])
      else if keyCode = VK_SPACE \<or> keyCode = VK_ENTER
        then (focusIndex g, PreventDefault # onCellSelected (focusIndex g))
      else (focusIndex g, []))"

text \<open>
  \<^verbatim>\<open>handleKeyboardNavigation\<close>. After the switch the old cell is blurred, the focus
  index is stored and the new cell is focused; either cell may be missing.
\<close>

definition handleKeyboardNavigation ::
    "nat option \<Rightarrow> int \<Rightarrow> grid \<Rightarrow> (error + unit) \<times> grid \<times> effect list" where
  "handleKeyboardNavigation cells keyCode g =
     (case cells of
        None \<Rightarrow> (Inr (), g, [])
      | Some n \<Rightarrow>
          let (newFocusIndex, fx) = key_switch n keyCode g
          in if newFocusIndex \<noteq> focusIndex g
             then if cell_defined n (focusIndex g)
                  then let g' = g\<lparr>focusIndex := newFocusIndex\<rparr>
                       in if cell_defined n (focusIndex g')
                          then (Inr (), g', fx @ [Blur (focusIndex g), Focus (focusIndex g')])
                          else (Inl TypeError, g', fx @ [Blur (focusIndex g)])
                  else (Inl TypeError, g, fx)
             else (Inr (), g, fx))"

text \<open>\<^verbatim>\<open>forwardFocusToCell\<close>, the listener of the \<^verbatim>\<open>focus\<close> event.\<close>

definition forwardFocusToCell ::
    "nat option \<Rightarrow> grid \<Rightarrow> (error + unit) \<times> grid \<times> effect list" where
  "forwardFocusToCell cells g =
     (case cells of
        None \<Rightarrow> (Inr (), g, [])
      | Some n \<Rightarrow>
          if focusIndex g < maxEnabledIndex g
          then if cell_defined n (focusIndex g)
               then (Inr (), g, [Focus (focusIndex g)])
               else (Inl TypeError, g, [])
          else (Inr (), g, []))"

section \<open>Properties\<close>

lemmas VK_defs =
  VK_ENTER_def VK_SPACE_def VK_END_def VK_HOME_def
  VK_LEFT_def VK_RIGHT_def VK_UP_def VK_DOWN_def

subsection \<open>Setters\<close>

lemma set_selectedDayIndex_stores:
  "selectedDayIndex (set_selectedDayIndex v g) = v"
  by (simp add: set_selectedDayIndex_def Let_def)

lemma set_selectedDayIndex_focus:
  "focusIndex (set_selectedDayIndex v g) =
     (if v < minEnabledIndex g \<or> maxEnabledIndex g < v then minEnabledIndex g else v)"
  by (simp add: set_selectedDayIndex_def Let_def)

lemma set_selectedDayIndex_bounds:
  "minEnabledIndex (set_selectedDayIndex v g) = minEnabledIndex g"
  "maxEnabledIndex (set_selectedDayIndex v g) = maxEnabledIndex g"
  by (simp_all add: set_selectedDayIndex_def Let_def)

text \<open>
  Claim C1. The setter of \<^verbatim>\<open>selectedDayIndex\<close> stores \<open>v\<close> and focuses \<open>v\<close>, unless
  \<open>v\<close> is outside the half-open range from \<^verbatim>\<open>minEnabledIndex\<close> to \<^verbatim>\<open>maxEnabledIndex\<close>,
  in which case the focus is \<^verbatim>\<open>minEnabledIndex\<close>. The setter compares with \<^verbatim>\<open>>\<close>
  where the range needs \<^verbatim>\<open>>=\<close>: on a new grid (range \<open>0\<close> to \<open>32\<close>) the value \<open>32\<close>
  is not an enabled index, and still the focus index becomes \<open>32\<close> and not \<open>0\<close>.
\<close>

theorem selectedDayIndex_setter_keeps_focus_at_max:
  "let g = set_selectedDayIndex 32 initial
   in selectedDayIndex g = 32 \<and> minEnabledIndex g = 0 \<and> maxEnabledIndex g = 32
      \<and> isCellEnabled g 32 = False \<and> focusIndex g = 32"
  by (simp add: Let_def initial_def set_selectedDayIndex_def isCellEnabled_def)

text \<open>
  Claim C4. A single call of a bounds setter can leave the focus index outside the
  enabled range: on a new grid, after \<^verbatim>\<open>minEnabledIndex = 3\<close> the focus index is \<open>3\<close>;
  \<^verbatim>\<open>maxEnabledIndex = 3\<close> then resets it to \<^verbatim>\<open>minEnabledIndex\<close>, which is \<open>3\<close>, and no index
  is enabled in the range from \<open>3\<close> to \<open>3\<close>.
\<close>

theorem maxEnabledIndex_setter_leaves_focus_outside_range:
  "let g = set_minEnabledIndex 3 initial;
       g' = set_maxEnabledIndex 3 g
   in minEnabledIndex g = 3 \<and> focusIndex g = 3
      \<and> minEnabledIndex g' = 3 \<and> maxEnabledIndex g' = 3 \<and> focusIndex g' = 3
      \<and> isCellEnabled g' (focusIndex g') = False"
  by (simp add: Let_def initial_def set_minEnabledIndex_def set_maxEnabledIndex_def
      isCellEnabled_def)

subsection \<open>Jumps\<close>

lemma jumpBackward_moves:
  "focusIndex g - step \<ge> max 0 (minEnabledIndex g) \<Longrightarrow> jumpBackward step g = focusIndex g - step"
  by (simp add: jumpBackward_def)

lemma jumpBackward_stays:
  "focusIndex g - step < max 0 (minEnabledIndex g) \<Longrightarrow> jumpBackward step g = focusIndex g"
  by (auto simp: jumpBackward_def)

lemma jumpForward_moves:
  "focusIndex g + step < min n (maxEnabledIndex g) \<Longrightarrow> jumpForward step n g = focusIndex g + step"
  by (simp add: jumpForward_def)

lemma jumpForward_stays:
  "focusIndex g + step \<ge> min n (maxEnabledIndex g) \<Longrightarrow> jumpForward step n g = focusIndex g"
  by (auto simp: jumpForward_def)

text \<open>
  Claim C6. For every step, focus index and minimum, \<^verbatim>\<open>jumpBackward(step)\<close> returns
  \<open>focusIndex - step\<close> when \<open>focusIndex - step \<ge> max(0, minEnabledIndex)\<close>, and only
  then takes that branch; otherwise it returns \<open>focusIndex\<close> unchanged.
\<close>

theorem jumpBackward_result:
  "(focusIndex g - step \<ge> max 0 (minEnabledIndex g)
      \<longrightarrow> jumpBackward step g = focusIndex g - step)
   \<and> (focusIndex g - step < max 0 (minEnabledIndex g)
      \<longrightarrow> jumpBackward step g = focusIndex g)"
  by (auto simp: jumpBackward_def)

theorem jumpBackward_result_witness:
  "focusIndex (set_selectedDayIndex 10 initial) - 7
     \<ge> max 0 (minEnabledIndex (set_selectedDayIndex 10 initial))
   \<and> jumpBackward 7 (set_selectedDayIndex 10 initial) = 3
   \<and> focusIndex (set_selectedDayIndex 5 initial) - 7
     < max 0 (minEnabledIndex (set_selectedDayIndex 5 initial))
   \<and> jumpBackward 7 (set_selectedDayIndex 5 initial) = 5"
proof -
  let ?a = "set_selectedDayIndex 10 initial" and ?b = "set_selectedDayIndex 5 initial"
  have fa: "focusIndex ?a = 10" and fb: "focusIndex ?b = 5"
    and ma: "minEnabledIndex ?a = 0" and mb: "minEnabledIndex ?b = 0"
    by (simp_all add: set_selectedDayIndex_def initial_def Let_def)
  have ha: "focusIndex ?a - 7 \<ge> max 0 (minEnabledIndex ?a)" by (simp add: fa ma)
  have hb: "focusIndex ?b - 7 < max 0 (minEnabledIndex ?b)" by (simp add: fb mb)
  from jumpBackward_result [of ?a 7] jumpBackward_result [of ?b 7] ha hb fa fb
  show ?thesis by simp
qed

text \<open>
  Claim C7. For every step, focus index, maximum and cell count,
  \<^verbatim>\<open>jumpForward(step, cellCount)\<close> returns \<open>focusIndex + step\<close> when
  \<open>focusIndex + step < min(cellCount, maxEnabledIndex)\<close>, and only then takes that
  branch; otherwise it returns \<open>focusIndex\<close> unchanged.
\<close>

theorem jumpForward_result:
  "(focusIndex g + step < min n (maxEnabledIndex g)
      \<longrightarrow> jumpForward step n g = focusIndex g + step)
   \<and> (focusIndex g + step \<ge> min n (maxEnabledIndex g)
      \<longrightarrow> jumpForward step n g = focusIndex g)"
  by (auto simp: jumpForward_def)

theorem jumpForward_result_witness:
  "focusIndex (set_selectedDayIndex 10 initial) + 7
     < min 31 (maxEnabledIndex (set_selectedDayIndex 10 initial))
   \<and> jumpForward 7 31 (set_selectedDayIndex 10 initial) = 17
   \<and> focusIndex (set_selectedDayIndex 10 (set_maxEnabledIndex 12 initial)) + 7
     \<ge> min 31 (maxEnabledIndex (set_selectedDayIndex 10 (set_maxEnabledIndex 12 initial)))
   \<and> jumpForward 7 31 (set_selectedDayIndex 10 (set_maxEnabledIndex 12 initial)) = 10"
proof -
  let ?a = "set_selectedDayIndex 10 initial"
  let ?b = "set_selectedDayIndex 10 (set_maxEnabledIndex 12 initial)"
  have fa: "focusIndex ?a = 10" and fb: "focusIndex ?b = 10"
    and ma: "maxEnabledIndex ?a = 32" and mb: "maxEnabledIndex ?b = 12"
    by (simp_all add: set_selectedDayIndex_def set_maxEnabledIndex_def initial_def Let_def)
  have ha: "focusIndex ?a + 7 < min 31 (maxEnabledIndex ?a)" by (simp add: fa ma)
  have hb: "focusIndex ?b + 7 \<ge> min 31 (maxEnabledIndex ?b)" by (simp add: fb mb)
  from jumpForward_result [of ?a 7 31] jumpForward_result [of ?b 7 31] ha hb fa fb
  show ?thesis by simp
qed

subsection \<open>Arrow keys and an empty enabled range\<close>

lemma jumpBackward_one_stays_iff:
  "jumpBackward 1 g = focusIndex g \<longleftrightarrow> focusIndex g \<le> max 0 (minEnabledIndex g)"
  by (auto simp: jumpBackward_def)

lemma jumpForward_one_stays_iff:
  "jumpForward 1 n g = focusIndex g \<longleftrightarrow> min n (maxEnabledIndex g) \<le> focusIndex g + 1"
  by (auto simp: jumpForward_def)

text \<open>
  Claim C2, amended. In a state with \<open>maxEnabledIndex \<le> minEnabledIndex\<close> whose focus
  index lies between \<open>maxEnabledIndex - 1\<close> and \<open>max(0, minEnabledIndex)\<close> (in particular
  when it equals \<^verbatim>\<open>minEnabledIndex\<close>), the four arrow-key jumps leave the focus index
  unchanged, whatever the number of cells.
\<close>

theorem arrow_keys_noop_in_empty_range:
  assumes "maxEnabledIndex g \<le> minEnabledIndex g"
    and "maxEnabledIndex g - 1 \<le> focusIndex g"
    and "focusIndex g \<le> max 0 (minEnabledIndex g)"
  shows "jumpBackward 1 g = focusIndex g \<and> jumpBackward 7 g = focusIndex g
       \<and> jumpForward 1 n g = focusIndex g \<and> jumpForward 7 n g = focusIndex g"
  using assms by (auto simp: jumpBackward_def jumpForward_def)

theorem arrow_keys_noop_in_empty_range_witness:
  "let g = set_maxEnabledIndex 3 (set_minEnabledIndex 3 initial)
   in maxEnabledIndex g \<le> minEnabledIndex g
      \<and> maxEnabledIndex g - 1 \<le> focusIndex g
      \<and> focusIndex g \<le> max 0 (minEnabledIndex g)
      \<and> jumpBackward 1 g = 3 \<and> jumpBackward 7 g = 3
      \<and> jumpForward 1 31 g = 3 \<and> jumpForward 7 31 g = 3"
proof -
  let ?g = "set_maxEnabledIndex 3 (set_minEnabledIndex 3 initial)"
  have f: "focusIndex ?g = 3" and lo: "minEnabledIndex ?g = 3" and hi: "maxEnabledIndex ?g = 3"
    by (simp_all add: initial_def set_minEnabledIndex_def set_maxEnabledIndex_def Let_def)
  have h1: "maxEnabledIndex ?g \<le> minEnabledIndex ?g" by (simp add: lo hi)
  have h2: "maxEnabledIndex ?g - 1 \<le> focusIndex ?g" by (simp add: f hi)
  have h3: "focusIndex ?g \<le> max 0 (minEnabledIndex ?g)" by (simp add: f lo)
  from arrow_keys_noop_in_empty_range [OF h1 h2 h3, of 31] h1 h2 h3 f
  show ?thesis by (simp add: Let_def)
qed

text \<open>
  The claim as stated fails in a state reached by three setter calls on a new grid:
  the range from \<open>3\<close> to \<open>3\<close> is empty, the focus index is \<open>5\<close>, and the left arrow
  moves the focus to \<open>4\<close>.
\<close>

theorem arrow_keys_move_in_empty_range:
  "let g = set_minEnabledIndex 3 (set_maxEnabledIndex 3 (set_minEnabledIndex 5 initial))
   in maxEnabledIndex g \<le> minEnabledIndex g \<and> focusIndex g = 5 \<and> jumpBackward 1 g = 4
      \<and> handleKeyboardNavigation (Some 31) VK_LEFT g
          = (Inr (), g\<lparr>focusIndex := 4\<rparr>, [PreventDefault, Blur 5, Focus 4])"
  by (simp add: handleKeyboardNavigation_def key_switch_def VK_defs Let_def initial_def
      set_minEnabledIndex_def set_maxEnabledIndex_def cell_defined_def jumpBackward_def)

subsection \<open>Keyboard handler\<close>

lemma key_switch_activation:
  "keyCode = VK_SPACE \<or> keyCode = VK_ENTER \<Longrightarrow>
     key_switch n keyCode g = (focusIndex g, [PreventDefault, Fire ''cell-selected'' (focusIndex g + 1)])"
  by (auto simp: key_switch_def VK_defs onCellSelected_def)

lemma key_switch_home: "fst (key_switch n VK_HOME g) = max 0 (minEnabledIndex g)"
  by (simp add: key_switch_def VK_defs)

lemma key_switch_end: "fst (key_switch n VK_END g) = min (int n) (maxEnabledIndex g) - 1"
  by (simp add: key_switch_def VK_defs)

text \<open>
  When the cell at the old focus index exists, the handler stores the new focus index
  (also when focusing the new cell fails afterwards).
\<close>

lemma handleKeyboardNavigation_stores_focus:
  "cell_defined n (focusIndex g) \<Longrightarrow>
     focusIndex (fst (snd (handleKeyboardNavigation (Some n) keyCode g)))
       = fst (key_switch n keyCode g)"
  by (simp add: handleKeyboardNavigation_def Let_def split: prod.split)

lemma home_end_with_focused_cell:
  "cell_defined n (focusIndex g) \<Longrightarrow>
     focusIndex (fst (snd (handleKeyboardNavigation (Some n) VK_HOME g)))
       = max 0 (minEnabledIndex g)
     \<and> focusIndex (fst (snd (handleKeyboardNavigation (Some n) VK_END g)))
       = min (int n) (maxEnabledIndex g) - 1"
  by (simp add: handleKeyboardNavigation_stores_focus key_switch_home key_switch_end)

text \<open>The handler never throws when both cells it addresses exist.\<close>

lemma handleKeyboardNavigation_no_throw:
  "cell_defined n (focusIndex g) \<Longrightarrow> cell_defined n (fst (key_switch n keyCode g)) \<Longrightarrow>
     fst (handleKeyboardNavigation (Some n) keyCode g) = Inr ()"
  by (cases "key_switch n keyCode g") (simp add: handleKeyboardNavigation_def Let_def)

text \<open>
  Claim C3. The key handler and the focus listener are to address existing cells only and
  never to throw. Both address \<^verbatim>\<open>cells[_focusIndex]\<close> unguarded. On a new grid, which has
  no cells, the End key computes the new index \<open>-1\<close> and throws at the blur of cell \<open>0\<close>,
  and the focus listener throws at the focus of cell \<open>0\<close>. With \<open>31\<close> cells and
  \<^verbatim>\<open>maxEnabledIndex = 0\<close> the End key blurs cell \<open>0\<close>, stores the focus index \<open>-1\<close> and
  throws at the focus of cell \<open>-1\<close>.
\<close>

theorem keyboard_handlers_throw_on_missing_cell:
  "handleKeyboardNavigation (Some 0) VK_END initial
     = (Inl TypeError, initial, [PreventDefault])
   \<and> forwardFocusToCell (Some 0) initial = (Inl TypeError, initial, [])
   \<and> handleKeyboardNavigation (Some 31) VK_END (set_maxEnabledIndex 0 initial)
     = (Inl TypeError, (set_maxEnabledIndex 0 initial)\<lparr>focusIndex := - 1\<rparr>,
        [PreventDefault, Blur 0])"
  by (simp add: handleKeyboardNavigation_def forwardFocusToCell_def key_switch_def VK_defs
      Let_def initial_def set_maxEnabledIndex_def cell_defined_def)

text \<open>
  The guard \<^verbatim>\<open>if (!cells) return\<close> catches the missing list only: then the handler
  does nothing at all.
\<close>

lemma handleKeyboardNavigation_undefined_cells:
  "handleKeyboardNavigation None keyCode g = (Inr (), g, [])"
  by (simp add: handleKeyboardNavigation_def)

text \<open>
  With an empty cell list no cell exists, so the handler never stores a focus index and
  never reaches a successful blur or focus: the state is unchanged and the log is that
  of the selected branch of the switch.
\<close>

lemma empty_list_state_unchanged:
  "fst (snd (handleKeyboardNavigation (Some 0) keyCode g)) = g"
  by (cases "key_switch 0 keyCode g")
     (simp add: handleKeyboardNavigation_def Let_def cell_defined_def)

lemma empty_list_log:
  "snd (snd (handleKeyboardNavigation (Some 0) keyCode g)) = snd (key_switch 0 keyCode g)"
  by (cases "key_switch 0 keyCode g")
     (simp add: handleKeyboardNavigation_def Let_def cell_defined_def)

lemma empty_list_no_blur_focus:
  "Blur i \<notin> set (snd (snd (handleKeyboardNavigation (Some 0) keyCode g)))
   \<and> Focus i \<notin> set (snd (snd (handleKeyboardNavigation (Some 0) keyCode g)))"
  by (simp add: empty_list_log key_switch_def onCellSelected_def)

text \<open>
  Claim C5. With zero rendered cells every keydown is to be a no-op: focus index
  unchanged, no cell focused or blurred, no \<^verbatim>\<open>cell-selected\<close> event, also on Space and
  Enter. The guard \<^verbatim>\<open>if (!cells) return\<close> lets the empty list through: a new grid
  renders no cell, and still Enter and Space fire \<^verbatim>\<open>cell-selected\<close> for day \<open>1\<close>.
\<close>

theorem keydown_with_zero_cells_fires:
  "render initial = Inr []
   \<and> handleKeyboardNavigation (Some 0) VK_ENTER initial
       = (Inr (), initial, [PreventDefault, Fire ''cell-selected'' 1])
   \<and> handleKeyboardNavigation (Some 0) VK_SPACE initial
       = (Inr (), initial, [PreventDefault, Fire ''cell-selected'' 1])"
  by (simp add: render_def handleKeyboardNavigation_def key_switch_def VK_defs Let_def
      initial_def onCellSelected_def)

text \<open>
  Claim C8. Home is to set the focus index to \<open>max(0, minEnabledIndex)\<close> and End to
  \<open>min(cellCount, maxEnabledIndex) - 1\<close> in every state. The handler blurs
  \<^verbatim>\<open>cells[_focusIndex]\<close> before it stores the new index: with the focus index \<open>30\<close>
  (after \<^verbatim>\<open>selectedDayIndex = 30\<close>) and \<open>28\<close> cells that cell is missing, the handler
  throws, and the focus index is still \<open>30\<close>, neither \<open>0\<close> after Home nor \<open>27\<close>
  after End.
\<close>

theorem home_end_throw_before_focus_update:
  "let g = set_selectedDayIndex 30 initial
   in focusIndex g = 30 \<and> max 0 (minEnabledIndex g) = 0
      \<and> min 28 (maxEnabledIndex g) - 1 = 27
      \<and> handleKeyboardNavigation (Some 28) VK_HOME g = (Inl TypeError, g, [PreventDefault])
      \<and> handleKeyboardNavigation (Some 28) VK_END g = (Inl TypeError, g, [PreventDefault])"
  by (simp add: handleKeyboardNavigation_def key_switch_def VK_defs Let_def initial_def
      set_selectedDayIndex_def cell_defined_def)

text \<open>
  Claim C9. For every state and every number of rendered cells, Space and Enter fire
  exactly one \<^verbatim>\<open>cell-selected\<close> event, with day \<open>focusIndex + 1\<close>, and leave the focus
  index and every other field unchanged; no cell is blurred or focused.
\<close>

theorem activation_fires_cell_selected:
  "handleKeyboardNavigation (Some n) VK_SPACE g
     = (Inr (), g, [PreventDefault, Fire ''cell-selected'' (focusIndex g + 1)])
   \<and> handleKeyboardNavigation (Some n) VK_ENTER g
     = (Inr (), g, [PreventDefault, Fire ''cell-selected'' (focusIndex g + 1)])"
  by (simp add: handleKeyboardNavigation_def key_switch_def VK_defs onCellSelected_def)

subsection \<open>Rendering\<close>

lemma array_set_nth: "array_set xs i v ! i = Some v"
  by (simp add: array_set_def nth_append)

lemma array_set_length: "i < length (array_set xs i v)"
  by (simp add: array_set_def)

lemma render_total: "0 \<le> dayCount g \<Longrightarrow> \<exists>cells. render g = Inr cells"
  by (simp add: render_def Let_def)

text \<open>A cell without a callback fires nothing when clicked.\<close>

lemma click_without_callback: "handleSelect c = None \<Longrightarrow> click c = []"
  by (simp add: click_def)

text \<open>
  Claim C10. In every render with \<open>selectedDayIndex \<ge> 0\<close> the cell at index
  \<^verbatim>\<open>selectedDayIndex\<close> is the selected cell built without a selection callback, whether
  or not the index is enabled; a click on it fires no event.
\<close>

theorem selected_cell_has_no_callback:
  assumes "render g = Inr cells" and "selectedDayIndex g \<ge> 0"
  shows "nat (selectedDayIndex g) < length cells
       \<and> cells ! nat (selectedDayIndex g)
           = Some (Cell (selectedDayIndex g) True (\<not> isCellEnabled g (selectedDayIndex g)) None)
       \<and> handleSelect (Cell (selectedDayIndex g) True
                          (\<not> isCellEnabled g (selectedDayIndex g)) None) = None
       \<and> click (Cell (selectedDayIndex g) True
                          (\<not> isCellEnabled g (selectedDayIndex g)) None) = []"
  using assms
  by (auto simp: render_def Let_def array_set_nth array_set_length click_def Cell_def
      split: if_splits)

theorem selected_cell_has_no_callback_witness:
  "render (initial\<lparr>dayCount := 3, selectedDayIndex := 1\<rparr>)
     = Inr [Some (Cell 0 False False (Some OnCellSelected)),
            Some (Cell 1 True False None),
            Some (Cell 2 False False (Some OnCellSelected))]
   \<and> selectedDayIndex (initial\<lparr>dayCount := 3, selectedDayIndex := 1\<rparr>) \<ge> 0
   \<and> isCellEnabled (initial\<lparr>dayCount := 3, selectedDayIndex := 1\<rparr>) 1
   \<and> handleSelect (Cell 1 True False None) = None
   \<and> click (Cell 1 True False None) = []"
proof -
  let ?g = "initial\<lparr>dayCount := 3, selectedDayIndex := 1\<rparr>"
  let ?cells = "[Some (Cell 0 False False (Some OnCellSelected)),
                 Some (Cell 1 True False None),
                 Some (Cell 2 False False (Some OnCellSelected))]"
  have r: "render ?g = Inr ?cells"
    by (simp add: render_def initial_def isCellEnabled_def array_set_def Let_def upt_rec)
  have s: "selectedDayIndex ?g \<ge> 0" by simp
  have e: "isCellEnabled ?g 1" by (simp add: isCellEnabled_def initial_def)
  from selected_cell_has_no_callback [OF r s] e r s show ?thesis by simp
qed

end
